theory Spec2Isabelle
  imports Complex_Main
begin

section \<open>Values and exceptions of the Python program\<close>

text \<open>
  The program computes with Python floats. Two models of them are used. In the first, a
  float is a real number and every arithmetic operation is exact. In the second, every
  arithmetic operation is followed by a rounding function \<open>fl\<close>, which for the program is
  \<open>round_double\<close>, rounding to the nearest double with ties to even. The exact model is
  the second with the identity for \<open>fl\<close>. Infinities and NaN are in neither model: what
  is proved holds as long as no result reaches 2 to the power 1024 in magnitude.
\<close>

datatype exn = ZeroDivisionError | TypeError | ValueError

datatype 'a outcome = Returns 'a | Raises exn

datatype pyval = PyNone | PyFloat real

section \<open>The controller: class PID of src/main/pid_tuner.py\<close>

text \<open>
  The fields of the class, in the order in which the constructor assigns them. The source
  calls the two output bounds \<open>max\<close> and \<open>min\<close>; here they are \<open>max_cmd\<close> and \<open>min_cmd\<close>.
\<close>

record PID =
  Kp :: real
  Ki :: real
  Kd :: real
  Kaw :: real
  T_C :: real
  T :: real
  max_cmd :: real
  min_cmd :: real
  max_rate :: real
  integral :: real
  err_prev :: real
  deriv_prev :: real
  command_sat_prev :: real
  command_prev :: real
  command_sat :: real

definition PID_init ::
  "real \<Rightarrow> real \<Rightarrow> real \<Rightarrow> real \<Rightarrow> real \<Rightarrow> real \<Rightarrow> real \<Rightarrow> real \<Rightarrow> real \<Rightarrow> PID" where
  "PID_init kp ki kd kaw t_c t mx mn rate =
     \<lparr>Kp = kp, Ki = ki, Kd = kd, Kaw = kaw, T_C = t_c, T = t,
      max_cmd = mx, min_cmd = mn, max_rate = rate,
      integral = 0, err_prev = 0, deriv_prev = 0,
      command_sat_prev = 0, command_prev = 0, command_sat = 0\<rparr>"

text \<open>
  \<open>PID.Step\<close>. Each local name holds the value the source computes at that point;
  \<open>saturated\<close> and \<open>limited\<close> are the two successive values of \<open>self.command_sat\<close>, and
  the final record lists the assignments to the fields of \<open>self\<close>. The integral is
  assigned before the division, so a zero divisor leaves the new integral behind when the
  division raises. The method has no \<open>return\<close> statement: a call that completes
  evaluates to \<open>None\<close>.
\<close>

definition Step :: "PID \<Rightarrow> real \<Rightarrow> real \<Rightarrow> PID \<times> pyval outcome" where
  "Step self measurement setpoint =
     (let err = setpoint - measurement;
          integral' = integral self
            + (Ki self * err * T self
               + Kaw self * (command_sat_prev self - command_prev self) * T self)
      in if T self + T_C self = 0
         then (self\<lparr>integral := integral'\<rparr>, Raises ZeroDivisionError)
         else
           let deriv_filt =
                 (err - err_prev self + T_C self * deriv_prev self) / (T self + T_C self);
               command = Kp self * err + integral' + Kd self * deriv_filt;
               saturated =
                 (if command > max_cmd self then max_cmd self
                  else if command < min_cmd self then min_cmd self
                  else command);
               limited =
                 (if saturated > command_sat_prev self + max_rate self * T self
                  then command_sat_prev self + max_rate self * T self
                  else if saturated < command_sat_prev self - max_rate self * T self
                  then command_sat_prev self - max_rate self * T self
                  else saturated)
           in (self\<lparr>integral := integral', err_prev := err, deriv_prev := deriv_filt,
                     command_prev := command, command_sat := limited,
                     command_sat_prev := limited\<rparr>,
               Returns PyNone))"

text \<open>
  What the control loop does with the value of the call (src/main/main.py, lines 108 to
  112): \<open>output_voltage = pid_command\<close>, then the arguments of \<open>power.set_output\<close>, of
  which the first compares \<open>output_voltage > 0\<close>. Python 3 raises \<open>TypeError\<close> when
  \<open>None\<close> is compared with a number.
\<close>

datatype channel = cool_ch | heat_ch

definition set_output_args :: "pyval \<Rightarrow> (channel \<times> real) outcome" where
  "set_output_args output_voltage =
     (case output_voltage of
        PyNone \<Rightarrow> Raises TypeError
      | PyFloat v \<Rightarrow> Returns (if v > 0 then heat_ch else cool_ch, \<bar>v\<bar>))"

text \<open>
  A run of the controller: a tick calls \<open>Step\<close>; between ticks the gains may be
  overwritten (the loop and the cost function of the optimizer both assign
  \<open>pid.Kp\<close>, \<open>pid.Ki\<close>, \<open>pid.Kd\<close>). \<open>outputs\<close> lists the saturated command stored by
  each tick; an exception ends the run.
\<close>

datatype event = Tick real real | SetGains real real real

fun outputs :: "PID \<Rightarrow> event list \<Rightarrow> real list" where
  "outputs p [] = []"
| "outputs p (Tick measurement setpoint # evs) =
     (case Step p measurement setpoint of
        (p', Returns _) \<Rightarrow> command_sat p' # outputs p' evs
      | (p', Raises _) \<Rightarrow> [])"
| "outputs p (SetGains kp ki kd # evs) = outputs (p\<lparr>Kp := kp, Ki := ki, Kd := kd\<rparr>) evs"

section \<open>Rounding to double\<close>








section \<open>The tuning loop: src/main/main.py\<close>

text \<open>The module constants, and the controller the module builds (lines 23, 24, 32 to 34).\<close>

definition target_temp :: real where
  "target_temp = 50"

definition tuning_interval :: real where
  "tuning_interval = 1 / 2"

definition pid0 :: PID where
  "pid0 = PID_init (1 / 2) (1 / 10) (1 / 100) (1 / 100) 1 (1 / 10) 10 0 (1 / 2)"

text \<open>
  Python's \<open>x % y\<close> on floats: for a divisor other than zero the result has the sign of
  the divisor. The only divisor in the source is the literal \<open>5\<close>.
\<close>

definition py_mod :: "real \<Rightarrow> real \<Rightarrow> real" where
  "py_mod x y = x - y * of_int \<lfloor>x / y\<rfloor>"

subsection \<open>The error history (lines 135 to 137)\<close>

text \<open>
  \<open>error_history.append(error)\<close>, then \<open>error_history.pop(0)\<close> when the length exceeds 50.
  The list is not empty when \<open>pop(0)\<close> runs, so it removes the first element.
\<close>

definition history_append :: "real list \<Rightarrow> real \<Rightarrow> real list" where
  "history_append error_history error =
     (let appended = error_history @ [error]
      in if length appended > 50 then tl appended else appended)"

text \<open>The list comprehension of line 141.\<close>

definition reconstruct_history :: "real list \<Rightarrow> real list" where
  "reconstruct_history error_history = map (\<lambda>e. target_temp - e) error_history"

text \<open>The condition of line 140.\<close>

definition optimization_due :: "real list \<Rightarrow> real \<Rightarrow> bool" where
  "optimization_due error_history elapsed_time \<longleftrightarrow>
     length error_history > 10 \<and> py_mod elapsed_time 5 < tuning_interval"

subsection \<open>The optimizer (lines 41 to 75)\<close>

type_synonym gains = "real \<times> real \<times> real"

text \<open>
  \<open>pid_cost\<close>, the closure handed to the minimizer. It assigns the candidate to the gains
  of the module's controller, then sums the squared errors of the temperature history,
  starting from \<open>0.0\<close> and adding from the left.
\<close>

definition pid_cost :: "real list \<Rightarrow> real \<Rightarrow> PID \<Rightarrow> gains \<Rightarrow> PID \<times> real" where
  "pid_cost temperature_history setpoint pid coefficients =
     (case coefficients of
        (kp, ki, kd) \<Rightarrow>
          (pid\<lparr>Kp := kp, Ki := ki, Kd := kd\<rparr>,
           foldl (\<lambda>total_error temp. total_error + (setpoint - temp)\<^sup>2) 0
             temperature_history))"

text \<open>
  \<open>scipy.optimize.minimize\<close> is a library outside the repository. A call of it is a
  strategy: it evaluates the cost function at a point and goes on according to the number it
  gets, or it finishes with a result (its \<open>success\<close> flag and its \<open>x\<close>), or it raises.
  The strategy is a parameter of the model; \<open>run_minimizer\<close> plays it against a cost
  function that acts on the controller.
\<close>

datatype minimizer =
    Finish bool gains
  | Fail exn
  | Evaluate gains "real \<Rightarrow> minimizer"

primrec run_minimizer ::
  "minimizer \<Rightarrow> (PID \<Rightarrow> gains \<Rightarrow> PID \<times> real) \<Rightarrow> PID \<Rightarrow> PID \<times> (bool \<times> gains) outcome" where
  "run_minimizer (Finish success x) cost pid = (pid, Returns (success, x))"
| "run_minimizer (Fail e) cost pid = (pid, Raises e)"
| "run_minimizer (Evaluate x continue) cost pid =
     (case cost pid x of (pid', cost_value) \<Rightarrow> run_minimizer (continue cost_value) cost pid')"


text \<open>
  The state the loop acts on: the module's controller, its error history and its logger's
  records, and the local variable \<open>coefficients\<close> of \<open>real_time_pid_tuning\<close>.
\<close>

datatype level = INFO | WARNING | ERROR

datatype message =
    Pass_status real real pyval
  | Optimization_successful gains
  | Error_during_PID_tuning exn

record loop_state =
  pid :: PID
  error_history :: "real list"
  coefficients :: gains
  logged :: "(level \<times> message) list"

text \<open>
  \<open>optimize_pid\<close>: the result of \<open>minimize\<close> is used whatever its \<open>success\<close> flag says, and
  an exception of \<open>minimize\<close> passes through.
\<close>

definition optimize_pid ::
  "(gains \<Rightarrow> minimizer) \<Rightarrow> loop_state \<Rightarrow> gains \<Rightarrow> real list \<Rightarrow> real \<Rightarrow> loop_state \<times> gains outcome"
  where
  "optimize_pid minimize st coefficients_initial temperature_history setpoint =
     (case run_minimizer (minimize coefficients_initial)
             (pid_cost temperature_history setpoint) (pid st) of
        (pid', Raises e) \<Rightarrow> (st\<lparr>pid := pid'\<rparr>, Raises e)
      | (pid', Returns (success, x)) \<Rightarrow>
          (st\<lparr>pid := pid', logged := logged st @ [(INFO, Optimization_successful x)]\<rparr>,
           Returns x))"

subsection \<open>One pass of the loop body, from the history update on\<close>

text \<open>Lines 141 to 143, the branch taken when the optimization is due.\<close>

definition retune :: "(gains \<Rightarrow> minimizer) \<Rightarrow> loop_state \<Rightarrow> loop_state \<times> unit outcome" where
  "retune minimize st =
     (let temperature_history = reconstruct_history (error_history st)
      in case optimize_pid minimize st (coefficients st) temperature_history target_temp of
           (st', Raises e) \<Rightarrow> (st', Raises e)
         | (st', Returns (kp, ki, kd)) \<Rightarrow>
             (st'\<lparr>coefficients := (kp, ki, kd),
                  pid := (pid st')\<lparr>Kp := kp, Ki := ki, Kd := kd\<rparr>\<rparr>,
              Returns ()))"

text \<open>
  Line 105 and lines 135 to 143. The temperature read by the sensor and the elapsed time
  are inputs. The lines in between (the call of \<open>Step\<close>, the actuator, the CSV row) read
  and write neither the history nor the coefficients, and are modelled above.
\<close>

definition history_and_tuning ::
  "(gains \<Rightarrow> minimizer) \<Rightarrow> loop_state \<Rightarrow> real \<Rightarrow> real \<Rightarrow> loop_state \<times> unit outcome" where
  "history_and_tuning minimize st current_temp elapsed_time =
     (let error = target_temp - current_temp;
          st1 = st\<lparr>error_history := history_append (error_history st) error\<rparr>
      in if optimization_due (error_history st1) elapsed_time
         then retune minimize st1
         else (st1, Returns ()))"

subsection \<open>The error, the reconstruction and the retune with rounding\<close>


definition reconstruct_history_fl :: "(real \<Rightarrow> real) \<Rightarrow> real list \<Rightarrow> real list" where
  "reconstruct_history_fl fl history = map (\<lambda>e. fl (target_temp - e)) history"

definition assign_result :: "loop_state \<times> gains outcome \<Rightarrow> loop_state \<times> unit outcome" where
  "assign_result r =
     (case r of
        (st', Raises e) \<Rightarrow> (st', Raises e)
      | (st', Returns (kp, ki, kd)) \<Rightarrow>
          (st'\<lparr>coefficients := (kp, ki, kd),
               pid := (pid st')\<lparr>Kp := kp, Ki := ki, Kd := kd\<rparr>\<rparr>,
           Returns ()))"

definition retune_fl ::
  "(real \<Rightarrow> real) \<Rightarrow> (gains \<Rightarrow> minimizer) \<Rightarrow> loop_state \<Rightarrow> loop_state \<times> unit outcome" where
  "retune_fl fl minimize st =
     (let temperature_history = reconstruct_history_fl fl (error_history st)
      in assign_result
           (optimize_pid minimize st (coefficients st) temperature_history target_temp))"

subsection \<open>The whole loop body and the loop\<close>




text \<open>The state at the start of \<open>real_time_pid_tuning\<close> (lines 37 and 94).\<close>

definition loop_init :: loop_state where
  "loop_init = \<lparr>pid = pid0, error_history = [],
                coefficients = (Kp pid0, Ki pid0, Kd pid0), logged = []\<rparr>"

subsection \<open>Three strategies of the minimizer, used as concrete inputs\<close>

text \<open>
  \<open>finish_at_start\<close> returns the initial point without evaluating the cost.
  \<open>probe_then_finish x\<close> evaluates the cost at \<open>x\<close>, then returns the initial point, as a
  minimizer does that finds no descent direction. \<open>probe_then_fail x e\<close> evaluates the
  cost at \<open>x\<close>, then raises \<open>e\<close>.
\<close>

definition finish_at_start :: "gains \<Rightarrow> minimizer" where
  "finish_at_start x0 = Finish True x0"

definition probe_then_finish :: "gains \<Rightarrow> gains \<Rightarrow> minimizer" where
  "probe_then_finish x x0 = Evaluate x (\<lambda>_. Finish True x0)"

definition probe_then_fail :: "gains \<Rightarrow> exn \<Rightarrow> gains \<Rightarrow> minimizer" where
  "probe_then_fail x e x0 = Evaluate x (\<lambda>_. Fail e)"

section \<open>Facts about \<open>Step\<close> and about runs of the controller\<close>

lemma Step_config:
  "Kp (fst (Step p m s)) = Kp p" "Ki (fst (Step p m s)) = Ki p" "Kd (fst (Step p m s)) = Kd p"
  "Kaw (fst (Step p m s)) = Kaw p" "T_C (fst (Step p m s)) = T_C p" "T (fst (Step p m s)) = T p"
  "max_cmd (fst (Step p m s)) = max_cmd p" "min_cmd (fst (Step p m s)) = min_cmd p"
  "max_rate (fst (Step p m s)) = max_rate p"
  by (simp_all add: Step_def Let_def)









section \<open>Facts about the history, the cost and the modulo\<close>

lemma history_append_length: "length h \<le> 50 \<Longrightarrow> length (history_append h x) \<le> 50"
  by (simp add: history_append_def Let_def)

lemma foldl_history_append:
  "length h \<le> 50 \<Longrightarrow> foldl history_append h xs = drop (length (h @ xs) - 50) (h @ xs)"
proof (induction xs arbitrary: h)
  case Nil
  then show ?case by simp
next
  case (Cons x xs)
  have len: "length (history_append h x) \<le> 50"
    using Cons.prems by (rule history_append_length)
  have "foldl history_append h (x # xs) = foldl history_append (history_append h x) xs" by simp
  also have "\<dots> = drop (length (history_append h x @ xs) - 50) (history_append h x @ xs)"
    using Cons.IH[OF len] .
  also have "\<dots> = drop (length (h @ x # xs) - 50) (h @ x # xs)"
  proof (cases "length h = 50")
    case True
    then have ne: "h \<noteq> []" by auto
    have "history_append h x = tl h @ [x]" using True ne by (simp add: history_append_def Let_def)
    moreover have "drop (Suc (length xs)) (h @ x # xs) = drop (length xs) (tl h @ x # xs)"
      by (simp only: drop_Suc tl_append2[OF ne])
    ultimately show ?thesis using True by simp
  next
    case False
    with Cons.prems have "history_append h x = h @ [x]" by (simp add: history_append_def Let_def)
    then show ?thesis by simp
  qed
  finally show ?case .
qed

lemma foldl_sum_sq:
  "foldl (\<lambda>total_error temp. total_error + (setpoint - temp)\<^sup>2) z xs
     = z + (\<Sum>temp\<leftarrow>xs. (setpoint - temp)\<^sup>2)"
  by (induction xs arbitrary: z) (simp_all add: add.assoc)

lemma py_mod_5_window:
  "py_mod e 5 < 1 / 2 \<longleftrightarrow> (\<exists>k::int. 5 * of_int k \<le> e \<and> e < 5 * of_int k + 1 / 2)"
proof
  assume a: "py_mod e 5 < 1 / 2"
  have "of_int \<lfloor>e / 5\<rfloor> \<le> e / 5" by (rule of_int_floor_le)
  then have "5 * of_int \<lfloor>e / 5\<rfloor> \<le> e" by simp
  moreover from a have "e < 5 * of_int \<lfloor>e / 5\<rfloor> + 1 / 2" by (simp add: py_mod_def)
  ultimately show "\<exists>k::int. 5 * of_int k \<le> e \<and> e < 5 * of_int k + 1 / 2" by blast
next
  assume "\<exists>k::int. 5 * of_int k \<le> e \<and> e < 5 * of_int k + 1 / 2"
  then obtain k :: int where k: "5 * of_int k \<le> e" "e < 5 * of_int k + 1 / 2" by blast
  have "\<lfloor>e / 5\<rfloor> = k"
  proof (rule floor_unique)
    show "of_int k \<le> e / 5" using k(1) by simp
    show "e / 5 < of_int k + 1" using k(2) by simp
  qed
  then show "py_mod e 5 < 1 / 2" using k(2) by (simp add: py_mod_def)
qed

lemma py_mod_5_range: "0 \<le> py_mod e 5 \<and> py_mod e 5 < 5"
proof -
  have "of_int \<lfloor>e / 5\<rfloor> \<le> e / 5" by (rule of_int_floor_le)
  then have lo: "5 * of_int \<lfloor>e / 5\<rfloor> \<le> e" by simp
  have "e / 5 < of_int \<lfloor>e / 5\<rfloor> + 1" by (rule real_of_int_floor_add_one_gt)
  then have hi: "e < 5 * of_int \<lfloor>e / 5\<rfloor> + 5" by linarith
  show ?thesis unfolding py_mod_def using lo hi by linarith
qed

section \<open>Facts about the optimizer and the loop\<close>

lemma pid_cost_fst:
  "fst (pid_cost h s p (kp, ki, kd)) = p\<lparr>Kp := kp, Ki := ki, Kd := kd\<rparr>"
  by (simp add: pid_cost_def)

lemma pid_cost_snd:
  "snd (pid_cost h s p c) = (\<Sum>temp\<leftarrow>h. (s - temp)\<^sup>2)"
  by (simp add: pid_cost_def foldl_sum_sq split: prod.splits)

lemma run_minimizer_frame:
  "\<exists>kp ki kd. fst (run_minimizer m (pid_cost h s) p) = p\<lparr>Kp := kp, Ki := ki, Kd := kd\<rparr>"
proof (induction m arbitrary: p)
  case (Finish success x)
  have "p = p\<lparr>Kp := Kp p, Ki := Ki p, Kd := Kd p\<rparr>" by simp
  then show ?case by (metis run_minimizer.simps(1) fst_conv)
next
  case (Fail e)
  have "p = p\<lparr>Kp := Kp p, Ki := Ki p, Kd := Kd p\<rparr>" by simp
  then show ?case by (metis run_minimizer.simps(2) fst_conv)
next
  case (Evaluate x continue)
  obtain a b c where x: "x = (a, b, c)" by (cases x) auto
  define v where "v = snd (pid_cost h s p x)"
  have cost: "pid_cost h s p x = (p\<lparr>Kp := a, Ki := b, Kd := c\<rparr>, v)"
    by (simp add: v_def x prod_eq_iff pid_cost_fst)
  have "continue v \<in> range continue" by simp
  from Evaluate.IH[OF this, of "p\<lparr>Kp := a, Ki := b, Kd := c\<rparr>"]
  obtain kp ki kd where
    "fst (run_minimizer (continue v) (pid_cost h s) (p\<lparr>Kp := a, Ki := b, Kd := c\<rparr>))
       = p\<lparr>Kp := a, Ki := b, Kd := c\<rparr>\<lparr>Kp := kp, Ki := ki, Kd := kd\<rparr>"
    by blast
  then have "fst (run_minimizer (Evaluate x continue) (pid_cost h s) p)
       = p\<lparr>Kp := kp, Ki := ki, Kd := kd\<rparr>"
    by (simp add: cost)
  then show ?case by blast
qed

lemma optimize_pid_frame:
  "error_history (fst (optimize_pid mz st c0 h s)) = error_history st"
  "coefficients (fst (optimize_pid mz st c0 h s)) = coefficients st"
  "pid (fst (optimize_pid mz st c0 h s)) = fst (run_minimizer (mz c0) (pid_cost h s) (pid st))"
  by (simp_all add: optimize_pid_def split: prod.splits outcome.splits)

lemma retune_error_history: "error_history (fst (retune mz st)) = error_history st"
proof -
  have "error_history (fst (optimize_pid mz st (coefficients st)
          (reconstruct_history (error_history st)) target_temp)) = error_history st"
    by (rule optimize_pid_frame)
  then show ?thesis
    by (auto simp add: retune_def Let_def split: prod.splits outcome.splits)
qed

lemma history_and_tuning_error_history:
  "error_history (fst (history_and_tuning mz st t e))
     = history_append (error_history st) (target_temp - t)"
  by (simp add: history_and_tuning_def Let_def retune_error_history)

lemma retune_ignores_success:
  "retune (\<lambda>x0. Finish False x) st = retune (\<lambda>x0. Finish True x) st"
  by (simp add: retune_def Let_def optimize_pid_def)

section \<open>Facts about rounding to double\<close>



































section \<open>Facts about \<open>Step\<close> with rounding\<close>









section \<open>Further facts about the retune, the minimizer and the loop body\<close>

lemma retune_fl_exact: "retune_fl (\<lambda>x. x) mz st = retune mz st"
  by (simp add: retune_fl_def retune_def assign_result_def reconstruct_history_fl_def
      reconstruct_history_def Let_def split: prod.splits outcome.splits)




section \<open>The claims\<close>

subsection \<open>C1: what a call of \<open>Step\<close> evaluates to\<close>

text \<open>
  Claim C1 says that \<open>step(measurement, setpoint)\<close> returns the saturated command. The
  source computes and stores the saturated command but has no \<open>return\<close> statement. On the
  module's controller, with a measurement of 40 and the module's setpoint, the call stores
  0.05 in \<open>command_sat\<close> and evaluates to \<open>None\<close>; the loop then compares that value with
  \<open>0\<close>, which raises \<open>TypeError\<close>.
\<close>

theorem C1_Step_returns_None:
  "snd (Step pid0 40 target_temp) = Returns PyNone
   \<and> command_sat (fst (Step pid0 40 target_temp)) = 1 / 20
   \<and> set_output_args PyNone = Raises TypeError"
  by (simp add: Step_def Let_def pid0_def PID_init_def target_temp_def set_output_args_def)

subsection \<open>C2: the saturated command and the output bounds\<close>




subsection \<open>C3: the rate limit\<close>




subsection \<open>C4: the cost does not depend on the candidate\<close>

text \<open>
  Claim C4: for every temperature history and setpoint, the cost is the same for any two
  candidate triples (and whatever the controller holds), namely the sum over the history of
  the squares of setpoint minus temperature.
\<close>

theorem C4_cost_ignores_candidate:
  "snd (pid_cost temperature_history setpoint p c1) = snd (pid_cost temperature_history setpoint p' c2)
   \<and> snd (pid_cost temperature_history setpoint p c1)
       = (\<Sum>temp\<leftarrow>temperature_history. (setpoint - temp)\<^sup>2)"
  by (simp add: pid_cost_snd)

subsection \<open>C5: who writes the gains\<close>

text \<open>
  Claim C5 as stated, refuted: a minimizer that evaluates the cost at (1, 2, 3) and then
  returns the initial point (0.5, 0.1, 0.01) leaves, when \<open>optimize_pid\<close> returns and before
  the loop assigns the result, a controller whose \<open>Kp\<close> is 1. The gains changed during the
  call, by the assignments of the cost function and not by the assignment of the result.
\<close>

theorem C5_counterexample:
  "Kp (pid (fst (optimize_pid (probe_then_finish (1, 2, 3)) loop_init
                   (coefficients loop_init) [40] target_temp))) = 1
   \<and> Kp (pid loop_init) = 1 / 2
   \<and> snd (optimize_pid (probe_then_finish (1, 2, 3)) loop_init
            (coefficients loop_init) [40] target_temp) = Returns (1 / 2, 1 / 10, 1 / 100)"
  by (simp add: finish_at_start_def probe_then_finish_def probe_then_fail_def
      optimize_pid_def pid_cost_def loop_init_def pid0_def PID_init_def)

text \<open>
  Claim C5 as amended: every evaluation of the cost function assigns the candidate triple
  to \<open>Kp\<close>, \<open>Ki\<close>, \<open>Kd\<close> of the controller and changes no other field; so a call of
  \<open>optimize_pid\<close> changes no field of the controller other than these three. When the
  retune completes, the loop has assigned the triple the minimizer returned: the gains of
  the controller and the loop's coefficients are that triple.
\<close>

theorem C5_amended:
  "fst (pid_cost temperature_history setpoint p (kp, ki, kd)) = p\<lparr>Kp := kp, Ki := ki, Kd := kd\<rparr>
   \<and> (\<exists>a b c. pid (fst (optimize_pid mz st c0 temperature_history setpoint))
                = (pid st)\<lparr>Kp := a, Ki := b, Kd := c\<rparr>)
   \<and> (retune mz st = (st', Returns u) \<longrightarrow>
        (\<exists>success. snd (run_minimizer (mz (coefficients st))
                          (pid_cost (reconstruct_history (error_history st)) target_temp) (pid st))
                    = Returns (success, coefficients st'))
        \<and> pid st' = (pid st)\<lparr>Kp := fst (coefficients st'), Ki := fst (snd (coefficients st')),
                              Kd := snd (snd (coefficients st'))\<rparr>)"
proof -
  have 1: "fst (pid_cost temperature_history setpoint p (kp, ki, kd)) = p\<lparr>Kp := kp, Ki := ki, Kd := kd\<rparr>"
    by (rule pid_cost_fst)
  have 2: "\<exists>a b c. pid (fst (optimize_pid mz st c0 temperature_history setpoint))
                = (pid st)\<lparr>Kp := a, Ki := b, Kd := c\<rparr>"
    unfolding optimize_pid_frame(3) by (rule run_minimizer_frame)
  have 3: "(\<exists>success. snd (run_minimizer (mz (coefficients st))
                          (pid_cost (reconstruct_history (error_history st)) target_temp) (pid st))
                    = Returns (success, coefficients st'))
        \<and> pid st' = (pid st)\<lparr>Kp := fst (coefficients st'), Ki := fst (snd (coefficients st')),
                              Kd := snd (snd (coefficients st'))\<rparr>"
    if r: "retune mz st = (st', Returns u)"
  proof -
    let ?h = "reconstruct_history (error_history st)"
    let ?run = "run_minimizer (mz (coefficients st)) (pid_cost ?h target_temp) (pid st)"
    obtain q res where run: "?run = (q, res)" by (cases ?run) auto
    from run_minimizer_frame[of "mz (coefficients st)" ?h target_temp "pid st"] run
    obtain a b c where q: "q = (pid st)\<lparr>Kp := a, Ki := b, Kd := c\<rparr>" by auto
    show ?thesis
    proof (cases res)
      case (Raises x)
      with r run show ?thesis
        by (simp add: retune_def Let_def optimize_pid_def)
    next
      case (Returns sx)
      obtain success x1 x2 x3 where sx: "sx = (success, x1, x2, x3)" by (cases sx) auto
      from r run Returns sx
      have st': "st' = st\<lparr>pid := q\<lparr>Kp := x1, Ki := x2, Kd := x3\<rparr>,
                   logged := logged st @ [(INFO, Optimization_successful (x1, x2, x3))],
                   coefficients := (x1, x2, x3)\<rparr>"
        by (auto simp add: retune_def Let_def optimize_pid_def)
      then show ?thesis using run Returns sx q by simp
    qed
  qed
  from 1 2 3 show ?thesis by blast
qed

theorem C5_amended_witness:
  "retune (probe_then_finish (1, 2, 3)) loop_init
     = (loop_init\<lparr>logged := [(INFO, Optimization_successful (1 / 2, 1 / 10, 1 / 100))]\<rparr>,
        Returns ())
   \<and> pid (loop_init\<lparr>logged := [(INFO, Optimization_successful (1 / 2, 1 / 10, 1 / 100))]\<rparr>)
       = (pid loop_init)\<lparr>Kp := 1 / 2, Ki := 1 / 10, Kd := 1 / 100\<rparr>"
proof -
  have r: "retune (probe_then_finish (1, 2, 3)) loop_init
     = (loop_init\<lparr>logged := [(INFO, Optimization_successful (1 / 2, 1 / 10, 1 / 100))]\<rparr>,
        Returns ())"
    by (simp add: finish_at_start_def probe_then_finish_def probe_then_fail_def
      retune_def Let_def optimize_pid_def pid_cost_def loop_init_def pid0_def
        PID_init_def)
  have c: "coefficients (loop_init\<lparr>logged := [(INFO, Optimization_successful (1 / 2, 1 / 10, 1 / 100))]\<rparr>)
      = (1 / 2, 1 / 10, 1 / 100)"
    by (simp add: finish_at_start_def probe_then_finish_def probe_then_fail_def
      loop_init_def pid0_def PID_init_def)
  show ?thesis
    using C5_amended[of "[]" 0 pid0 0 0 0 "probe_then_finish (1, 2, 3)"
        loop_init "(0, 0, 0)"
        "loop_init\<lparr>logged := [(INFO, Optimization_successful (1 / 2, 1 / 10, 1 / 100))]\<rparr>" "()"]
      r c
    by (simp add: finish_at_start_def probe_then_finish_def probe_then_fail_def)
qed

subsection \<open>C6: a failing optimizer\<close>




subsection \<open>C7: the two-tick scenario\<close>

text \<open>
  Claim C7: with \<open>Kp = 1\<close>, \<open>Ki = Kd = Kaw = 0\<close>, \<open>T_C = 1\<close>, \<open>T = 0.1\<close>, \<open>max = 10\<close>,
  \<open>min = 0\<close>, \<open>max_rate = 0.5\<close>, a measurement of 40 and a setpoint of 50, the first call
  stores a saturated command of 0.05 (from an unsaturated command of 10) and the second
  call one of 0.10.
\<close>

theorem C7_two_ticks:
  "command_sat (fst (Step (PID_init 1 0 0 0 1 (1 / 10) 10 0 (1 / 2)) 40 50)) = 5 / 100
   \<and> command_sat (fst (Step (fst (Step (PID_init 1 0 0 0 1 (1 / 10) 10 0 (1 / 2)) 40 50)) 40 50))
       = 10 / 100
   \<and> command_prev (fst (Step (PID_init 1 0 0 0 1 (1 / 10) 10 0 (1 / 2)) 40 50)) = 10
   \<and> outputs (PID_init 1 0 0 0 1 (1 / 10) 10 0 (1 / 2)) [Tick 40 50, Tick 40 50] = [5 / 100, 10 / 100]"
  by (simp add: Step_def Let_def PID_init_def)

subsection \<open>C8: the bounded history\<close>

text \<open>
  Claim C8: starting from the empty history, after any number of pushes the length is at
  most 50; after 51 pushes the history is the pushed sequence without its first entry, in
  the order of insertion, so the 51st value is present (it is the last entry) and the first
  value is absent unless it was pushed again later.
\<close>

theorem C8_bounded_fifo:
  "length (foldl history_append [] xs) \<le> 50
   \<and> (length xs = 51 \<longrightarrow>
        foldl history_append [] xs = tl xs
        \<and> xs ! 50 \<in> set (foldl history_append [] xs)
        \<and> last (foldl history_append [] xs) = xs ! 50
        \<and> (distinct xs \<longrightarrow> xs ! 0 \<notin> set (foldl history_append [] xs)))"
proof -
  have eq: "foldl history_append [] xs = drop (length xs - 50) xs"
    using foldl_history_append[of "[]" xs] by simp
  have "length (foldl history_append [] xs) \<le> 50"
    unfolding eq by simp
  moreover have "foldl history_append [] xs = tl xs
        \<and> xs ! 50 \<in> set (foldl history_append [] xs)
        \<and> last (foldl history_append [] xs) = xs ! 50
        \<and> (distinct xs \<longrightarrow> xs ! 0 \<notin> set (foldl history_append [] xs))"
    if len: "length xs = 51"
  proof -
    from len obtain x ys where xs: "xs = x # ys" and ys: "length ys = 50"
      by (cases xs) auto
    have f: "foldl history_append [] xs = ys"
      unfolding eq using xs ys by simp
    have "ys \<noteq> []" using ys by auto
    then have l: "last ys = ys ! 49" using ys by (simp add: last_conv_nth)
    have "ys ! 49 \<in> set ys" using ys by simp
    then show ?thesis unfolding f using xs l by auto
  qed
  ultimately show ?thesis by blast
qed

theorem C8_bounded_fifo_witness:
  "length (map real [0..<51]) = 51 \<and> distinct (map real [0..<51])
   \<and> foldl history_append [] (map real [0..<51]) = map real [1..<51]
   \<and> map real [0..<51] ! 0 \<notin> set (foldl history_append [] (map real [0..<51]))
   \<and> map real [0..<51] ! 50 \<in> set (foldl history_append [] (map real [0..<51]))"
proof -
  have len: "length (map real [0..<51]) = 51" by simp
  have d: "distinct (map real [0..<51])" by (simp add: distinct_map)
  have t: "tl (map real [0..<51]) = map real [1..<51]"
    by (simp add: map_tl[symmetric] del: upt.simps)
  show ?thesis
    using C8_bounded_fifo[of "map real [0..<51]"] len d t by auto
qed

subsection \<open>C9: when the optimization is due\<close>

text \<open>
  Claim C9: the optimization is due if and only if the history (after the push of the
  pass) has more than 10 entries and the elapsed time lies less than the tuning interval
  above a multiple of 5 seconds; nothing else enters the condition. A pass on which it is
  not due returns normally and leaves the controller, the coefficients and the log as they
  were; a pass on which it is due runs the retune. \<open>Step\<close> never changes the gains.
\<close>

theorem C9_trigger:
  "(optimization_due h e \<longleftrightarrow>
      10 < length h \<and> (\<exists>k::int. 5 * of_int k \<le> e \<and> e < 5 * of_int k + tuning_interval))
   \<and> (\<not> optimization_due (history_append (error_history st) (target_temp - t)) e \<longrightarrow>
        snd (history_and_tuning mz st t e) = Returns ()
        \<and> pid (fst (history_and_tuning mz st t e)) = pid st
        \<and> coefficients (fst (history_and_tuning mz st t e)) = coefficients st
        \<and> logged (fst (history_and_tuning mz st t e)) = logged st)
   \<and> (optimization_due (history_append (error_history st) (target_temp - t)) e \<longrightarrow>
        history_and_tuning mz st t e
          = retune mz (st\<lparr>error_history := history_append (error_history st) (target_temp - t)\<rparr>))
   \<and> Kp (fst (Step p m s)) = Kp p \<and> Ki (fst (Step p m s)) = Ki p \<and> Kd (fst (Step p m s)) = Kd p"
proof -
  have "optimization_due h e \<longleftrightarrow>
      10 < length h \<and> (\<exists>k::int. 5 * of_int k \<le> e \<and> e < 5 * of_int k + tuning_interval)"
    by (simp only: optimization_due_def tuning_interval_def py_mod_5_window)
  then show ?thesis
    by (simp add: history_and_tuning_def Let_def Step_config)
qed

theorem C9_trigger_witness:
  "\<not> optimization_due (history_append (error_history loop_init) (target_temp - 40)) 0
   \<and> pid (fst (history_and_tuning finish_at_start loop_init 40 0)) = pid loop_init
   \<and> snd (history_and_tuning finish_at_start loop_init 40 0) = Returns ()
   \<and> optimization_due
        (history_append (error_history (loop_init\<lparr>error_history := replicate 10 0\<rparr>))
           (target_temp - 40)) 5
   \<and> history_and_tuning finish_at_start (loop_init\<lparr>error_history := replicate 10 0\<rparr>) 40 5
       = retune finish_at_start
           (loop_init\<lparr>error_history := replicate 10 0 @ [10]\<rparr>)"
proof -
  have a: "\<not> optimization_due (history_append (error_history loop_init) (target_temp - 40)) 0"
    by (simp add: finish_at_start_def probe_then_finish_def probe_then_fail_def
      optimization_due_def history_append_def loop_init_def)
  have b: "optimization_due
        (history_append (error_history (loop_init\<lparr>error_history := replicate 10 0\<rparr>))
           (target_temp - 40)) 5"
    by (simp add: finish_at_start_def probe_then_finish_def probe_then_fail_def
      optimization_due_def history_append_def py_mod_def tuning_interval_def)
  have c: "history_append (replicate 10 0) (target_temp - 40) = replicate 10 0 @ [10]"
    by (simp add: finish_at_start_def probe_then_finish_def probe_then_fail_def
      history_append_def target_temp_def)
  show ?thesis
    using C9_trigger[of "[]" 0 loop_init 40 finish_at_start pid0 0 0]
      C9_trigger[of "[]" 5 "loop_init\<lparr>error_history := replicate 10 0\<rparr>" 40
        finish_at_start pid0 0 0]
      a b c
    by (simp add: finish_at_start_def probe_then_finish_def probe_then_fail_def)
qed

subsection \<open>C10: the temperatures handed to the optimizer\<close>




end
